theory Spec2Isabelle
  imports Main "HOL-Library.Word"
begin

unbundle bit_operations_syntax

section \<open>The board: pins, the analog converter and the log of what the firmware did\<close>

text \<open>
  Both sketches run on an AVR (ATtiny) core, where \<^verbatim>\<open>unsigned int\<close> and \<^verbatim>\<open>int\<close>
  are 16 bits wide and \<^verbatim>\<open>uint8_t\<close> is 8 bits wide.
\<close>

type_synonym uint = "16 word"
type_synonym uint8_t = "8 word"

text \<open>Digital pins are numbered; the analog input is named by its channel (\<^verbatim>\<open>A2\<close>).\<close>

datatype analog_pin = A nat

text \<open>
  Every call that leaves the sketch (Arduino core, sleep driver, radio stack) is logged
  in the order in which it happens.
\<close>

datatype event =
    PinMode nat
  | DigitalWrite nat bool
  | Delay nat
  | AnalogRead analog_pin uint
  | SetSleeptime nat
  | GotoSleep
  | Rfm_init
  | SetKeys
  | Send_Data "uint8_t list" uint8_t uint

text \<open>
  The board state: the level of every output pin, the values the converter delivers
  (\<open>adc s n\<close> is what the \<open>n\<close>-th call of \<^verbatim>\<open>analogRead\<close> since power-up returns; the
  sketches do not validate it and there is no failure path), the number of reads done so
  far, and the log.
\<close>

record board =
  pins :: "nat \<Rightarrow> bool"
  adc :: "nat \<Rightarrow> uint"
  reads :: nat
  trace :: "event list"

definition log :: "event \<Rightarrow> 'a board_scheme \<Rightarrow> 'a board_scheme" where
  "log e s = s\<lparr>trace := trace s @ [e]\<rparr>"

definition pinMode :: "nat \<Rightarrow> 'a board_scheme \<Rightarrow> 'a board_scheme" where
  "pinMode p s = log (PinMode p) s"

definition digitalWrite :: "nat \<Rightarrow> bool \<Rightarrow> 'a board_scheme \<Rightarrow> 'a board_scheme" where
  "digitalWrite p v s = log (DigitalWrite p v) (s\<lparr>pins := (pins s)(p := v)\<rparr>)"

definition delay :: "nat \<Rightarrow> 'a board_scheme \<Rightarrow> 'a board_scheme" where
  "delay ms s = log (Delay ms) s"

text \<open>
  \<^verbatim>\<open>analogRead\<close> returns an \<^verbatim>\<open>int\<close>; added to an \<^verbatim>\<open>unsigned int\<close> it is converted to
  16 bits unsigned, which is the type the model gives it from the start.
\<close>

definition analogRead :: "analog_pin \<Rightarrow> 'a board_scheme \<Rightarrow> uint \<times> 'a board_scheme" where
  "analogRead p s =
     (let v = adc s (reads s)
      in (v, log (AnalogRead p v) (s\<lparr>reads := Suc (reads s)\<rparr>)))"

section \<open>Pin assignment (the same in both sketches)\<close>

definition irled :: nat where "irled = 3"
definition irdiode :: nat where "irdiode = 7"
definition irsens :: analog_pin where "irsens = A 2"
definition statusled :: nat where "statusled = 2"

section \<open>The threshold test and the sampling loop\<close>

text \<open>
  \<^verbatim>\<open>measure > THRESHOLD\<close>, as written in both sketches. \<^verbatim>\<open>THRESHOLD\<close> is a preprocessor
  constant, a non-negative decimal literal, taken here as a parameter. Whatever integer
  type the literal has, the usual arithmetic conversions keep its value and that of the
  16-bit unsigned \<^verbatim>\<open>measure\<close>, so the comparison is the one of the two values.
\<close>

definition classify :: "uint \<Rightarrow> nat \<Rightarrow> bool" where
  "classify meas thr = (unat meas > thr)"

text \<open>
  \<^verbatim>\<open>for(int i = 0 ; i <3 ; i++){ delay(ms); measure += analogRead(irsens); }\<close>
  with the loop index, the accumulator and the board as the loop state.
\<close>

function sample_loop :: "nat \<Rightarrow> nat \<Rightarrow> uint \<times> 'a board_scheme \<Rightarrow> uint \<times> 'a board_scheme" where
  "sample_loop ms i (meas, s) =
     (if i < 3 then
        (let s1 = delay ms s;
             (v, s2) = analogRead irsens s1
         in sample_loop ms (Suc i) (meas + v, s2))
      else (meas, s))"
  by pat_completeness auto
termination
  by (relation "measure (\<lambda>(ms, i, st). 3 - i)") auto

declare sample_loop.simps [simp del]

section \<open>The calibration sketch\<close>

definition THRESHOLD_calibrate :: nat where "THRESHOLD_calibrate = 15"

text \<open>\<^verbatim>\<open>checkLetter\<close> of the calibration sketch up to \<^verbatim>\<open>measure = measure/3\<close>.\<close>

definition measure_calibrate :: "'a board_scheme \<Rightarrow> uint \<times> 'a board_scheme" where
  "measure_calibrate s =
     (let s1 = digitalWrite irled True s;
          s2 = digitalWrite irdiode True s1;
          (meas, s3) = sample_loop 15 0 (0, s2);
          s4 = digitalWrite irled False s3;
          s5 = digitalWrite irdiode False s4
      in (meas div 3, s5))"

definition checkLetter_calibrate :: "'a board_scheme \<Rightarrow> bool \<times> 'a board_scheme" where
  "checkLetter_calibrate s =
     (let (meas, s1) = measure_calibrate s
      in (if classify meas THRESHOLD_calibrate then (True, s1) else (False, s1)))"

definition setup_calibrate :: "'a board_scheme \<Rightarrow> 'a board_scheme" where
  "setup_calibrate s =
     (let s1 = pinMode irled s;
          s2 = pinMode irdiode s1;
          s3 = pinMode statusled s2;
          s4 = digitalWrite statusled True s3;
          s5 = delay 500 s4;
          s6 = digitalWrite statusled False s5
      in delay 500 s6)"

definition loop_calibrate :: "'a board_scheme \<Rightarrow> 'a board_scheme" where
  "loop_calibrate s =
     (let (letter, s1) = checkLetter_calibrate s;
          s2 = (if letter = True then digitalWrite statusled True s1
                else digitalWrite statusled False s1)
      in delay 100 s2)"

section \<open>The deployed sensor node\<close>

text \<open>\<^verbatim>\<open>setup\<close> and \<^verbatim>\<open>checkLetter\<close> of this sketch are \<open>setup_node\<close> and \<open>checkLetter\<close> below.\<close>

definition atsleep :: nat where "atsleep = 1800"
definition THRESHOLD :: nat where "THRESHOLD = 30"
definition Data_Length :: uint8_t where "Data_Length = 0x07"

text \<open>The node adds the one global of the sketch to the board.\<close>

record node = board +
  Frame_Counter_Tx :: uint

text \<open>
  What the sleep driver and the radio module answer during one pass of \<^verbatim>\<open>loop\<close>:
  \<^verbatim>\<open>at.checkAction()\<close>, \<^verbatim>\<open>at.getVoltage()\<close> as stored in \<^verbatim>\<open>unsigned int vol\<close>, and
  \<^verbatim>\<open>rfm.RFM_Temp()\<close> as stored in the \<^verbatim>\<open>uint8_t\<close> slot \<^verbatim>\<open>Data[6]\<close>. Their code is not
  part of the sketch.
\<close>

record wake =
  checkAction :: bool
  getVoltage :: uint
  RFM_Temp :: uint8_t

definition setSleeptime :: "nat \<Rightarrow> 'a board_scheme \<Rightarrow> 'a board_scheme" where
  "setSleeptime t s = log (SetSleeptime t) s"

definition gotoSleep :: "'a board_scheme \<Rightarrow> 'a board_scheme" where
  "gotoSleep s = log GotoSleep s"

definition lora_Send_Data :: "uint8_t list \<Rightarrow> uint8_t \<Rightarrow> uint \<Rightarrow> 'a board_scheme \<Rightarrow> 'a board_scheme" where
  "lora_Send_Data Data len fc s = log (Send_Data Data len fc) s"

definition checkLetter :: "'a board_scheme \<Rightarrow> uint \<times> 'a board_scheme" where
  "checkLetter s =
     (let s1 = digitalWrite irled True s;
          s2 = digitalWrite irdiode True s1;
          s3 = delay 25 s2;
          (meas, s4) = sample_loop 25 0 (0, s3);
          s5 = digitalWrite irled False s4;
          s6 = digitalWrite irdiode False s5
      in (meas div 3, s6))"

text \<open>
  The seven assignments to \<^verbatim>\<open>Data\<close> in \<^verbatim>\<open>loop\<close>. The array is a local without an
  initialiser; every index is written before the array is handed on, so the filler
  never shows. Storing \<^verbatim>\<open>THRESHOLD\<close> in a \<^verbatim>\<open>uint8_t\<close> keeps its low 8 bits.
\<close>

definition build_Data :: "nat \<Rightarrow> uint \<Rightarrow> uint \<Rightarrow> uint8_t \<Rightarrow> uint8_t list" where
  "build_Data thr meas vol temp =
     (let Data = replicate (unat Data_Length) (0 :: uint8_t);
          Data = (if classify meas thr then Data[0 := 0xFF] else Data[0 := 0x00]);
          Data = Data[1 := ucast (vol AND 0xFF)];
          Data = Data[2 := ucast ((drop_bit 8 vol) AND 0xFF)];
          Data = Data[3 := ucast (meas AND 0xFF)];
          Data = Data[4 := ucast ((drop_bit 8 meas) AND 0xFF)];
          Data = Data[5 := of_nat thr];
          Data = Data[6 := temp]
      in Data)"

definition setup_node :: "node \<Rightarrow> node" where
  "setup_node s =
     (let s1 = setSleeptime atsleep s;
          s2 = log Rfm_init s1;
          s3 = log SetKeys s2;
          s4 = pinMode irled s3;
          s5 = pinMode statusled s4;
          s6 = pinMode irdiode s5;
          s7 = digitalWrite statusled True s6;
          s8 = delay 10 s7
      in digitalWrite statusled False s8)"

text \<open>One pass of \<^verbatim>\<open>loop\<close>, with the threshold as a parameter.\<close>

definition loop_thr :: "nat \<Rightarrow> wake \<Rightarrow> node \<Rightarrow> node" where
  "loop_thr thr w s =
     (let s' =
        (if checkAction w then
           (let (meas, s1) = checkLetter s;
                Data = build_Data thr meas (getVoltage w) (RFM_Temp w);
                s2 = lora_Send_Data Data Data_Length (Frame_Counter_Tx s1) s1
            in s2\<lparr>Frame_Counter_Tx := Frame_Counter_Tx s2 + 1\<rparr>)
         else s);
        s'' = setSleeptime atsleep s'
      in gotoSleep s'')"

definition loop :: "wake \<Rightarrow> node \<Rightarrow> node" where
  "loop w s = loop_thr THRESHOLD w s"

text \<open>
  The state at power-up, for the calibration sketch and for the node: all pins low, no
  read done, an empty log, and the frame counter at its initialiser \<^verbatim>\<open>0x0000\<close>.
\<close>

definition boot_calibrate :: "(nat \<Rightarrow> uint) \<Rightarrow> board" where
  "boot_calibrate a = \<lparr>pins = (\<lambda>p. False), adc = a, reads = 0, trace = []\<rparr>"

definition boot :: "(nat \<Rightarrow> uint) \<Rightarrow> node" where
  "boot a = \<lparr>pins = (\<lambda>p. False), adc = a, reads = 0, trace = [], Frame_Counter_Tx = 0x0000\<rparr>"

text \<open>\<^verbatim>\<open>loop\<close> called again and again, once per wake-up.\<close>

fun run :: "wake list \<Rightarrow> node \<Rightarrow> node" where
  "run [] s = s"
| "run (w # ws) s = run ws (loop w s)"

section \<open>Reading the log\<close>

text \<open>What a call added to the log: the events of \<open>s'\<close> after those of \<open>s\<close>.\<close>

definition emitted :: "'a board_scheme \<Rightarrow> 'b board_scheme \<Rightarrow> event list" where
  "emitted s s' = drop (length (trace s)) (trace s')"

text \<open>The frames handed to the radio stack: payload, length and frame counter.\<close>

fun sent :: "event list \<Rightarrow> (uint8_t list \<times> uint8_t \<times> uint) list" where
  "sent [] = []"
| "sent (Send_Data d n fc # es) = (d, n, fc) # sent es"
| "sent (e # es) = sent es"

text \<open>The values read from the converter.\<close>

fun analog_reads :: "event list \<Rightarrow> uint list" where
  "analog_reads [] = []"
| "analog_reads (AnalogRead p v # es) = v # analog_reads es"
| "analog_reads (e # es) = analog_reads es"

text \<open>
  For every analog read, the milliseconds of \<^verbatim>\<open>delay\<close> that passed since the read before
  it (for the first read: since the start of the log).
\<close>

fun read_waits_from :: "nat \<Rightarrow> event list \<Rightarrow> nat list" where
  "read_waits_from acc [] = []"
| "read_waits_from acc (Delay d # es) = read_waits_from (acc + d) es"
| "read_waits_from acc (AnalogRead p v # es) = acc # read_waits_from 0 es"
| "read_waits_from acc (e # es) = read_waits_from acc es"

definition read_waits :: "event list \<Rightarrow> nat list" where
  "read_waits es = read_waits_from 0 es"

text \<open>
  Replaying the pin writes of a log from the pin levels \<open>p\<close>: is every analog read taken
  while the emitter and the detector supply are both high?
\<close>

fun lit_at_reads :: "(nat \<Rightarrow> bool) \<Rightarrow> event list \<Rightarrow> bool" where
  "lit_at_reads p [] = True"
| "lit_at_reads p (DigitalWrite q v # es) = lit_at_reads (p(q := v)) es"
| "lit_at_reads p (AnalogRead c v # es) = (p irled \<and> p irdiode \<and> lit_at_reads p es)"
| "lit_at_reads p (e # es) = lit_at_reads p es"

text \<open>
  A payload whose flag byte agrees with its own measurement bytes: byte 0 is \<open>0xFF\<close>
  exactly when the little-endian value of bytes 3 and 4 is above the threshold.
\<close>

definition flag_consistent :: "nat \<Rightarrow> uint8_t list \<Rightarrow> bool" where
  "flag_consistent thr p = ((p ! 0 = 0xFF) = (thr < unat (p ! 3) + 256 * unat (p ! 4)))"

text \<open>A converter that delivers the listed readings, and 0 once they are used up.\<close>

definition adc_list :: "uint list \<Rightarrow> nat \<Rightarrow> uint" where
  "adc_list xs n = (if n < length xs then xs ! n else 0)"

section \<open>What one call does, written out\<close>

lemma sample_loop_done: "sample_loop ms (Suc (Suc (Suc 0))) (m, s) = (m, s)"
  by (simp add: sample_loop.simps)

lemma sample_loop_step:
  "i < 3 \<Longrightarrow> sample_loop ms i (m, s) =
     sample_loop ms (Suc i) (m + adc s (reads s),
       s\<lparr>reads := Suc (reads s),
         trace := trace s @ [Delay ms, AnalogRead irsens (adc s (reads s))]\<rparr>)"
  by (subst sample_loop.simps) (simp add: delay_def analogRead_def log_def Let_def)

lemma sample_loop_eq:
  "sample_loop ms 0 (m, s) =
     (m + adc s (reads s) + adc s (Suc (reads s)) + adc s (Suc (Suc (reads s))),
      s\<lparr>reads := Suc (Suc (Suc (reads s))),
        trace := trace s @ [Delay ms, AnalogRead irsens (adc s (reads s)),
                            Delay ms, AnalogRead irsens (adc s (Suc (reads s))),
                            Delay ms, AnalogRead irsens (adc s (Suc (Suc (reads s))))]\<rparr>)"
  by (simp add: sample_loop_step sample_loop_done)

lemma checkLetter_eq:
  "checkLetter s =
     ((adc s (reads s) + adc s (Suc (reads s)) + adc s (Suc (Suc (reads s)))) div 3,
      s\<lparr>pins := (pins s)(irled := False, irdiode := False),
        reads := Suc (Suc (Suc (reads s))),
        trace := trace s @ [DigitalWrite irled True, DigitalWrite irdiode True, Delay 25,
                            Delay 25, AnalogRead irsens (adc s (reads s)),
                            Delay 25, AnalogRead irsens (adc s (Suc (reads s))),
                            Delay 25, AnalogRead irsens (adc s (Suc (Suc (reads s)))),
                            DigitalWrite irled False, DigitalWrite irdiode False]\<rparr>)"
  by (simp add: checkLetter_def sample_loop_eq digitalWrite_def delay_def log_def Let_def)

lemma measure_calibrate_eq:
  "measure_calibrate s =
     ((adc s (reads s) + adc s (Suc (reads s)) + adc s (Suc (Suc (reads s)))) div 3,
      s\<lparr>pins := (pins s)(irled := False, irdiode := False),
        reads := Suc (Suc (Suc (reads s))),
        trace := trace s @ [DigitalWrite irled True, DigitalWrite irdiode True,
                            Delay 15, AnalogRead irsens (adc s (reads s)),
                            Delay 15, AnalogRead irsens (adc s (Suc (reads s))),
                            Delay 15, AnalogRead irsens (adc s (Suc (Suc (reads s)))),
                            DigitalWrite irled False, DigitalWrite irdiode False]\<rparr>)"
  by (simp add: measure_calibrate_def sample_loop_eq digitalWrite_def delay_def log_def Let_def)

lemma build_Data_eq:
  "build_Data thr m vol temp =
     [if classify m thr then 0xFF else 0x00,
      ucast (vol AND 0xFF), ucast (drop_bit 8 vol AND 0xFF),
      ucast (m AND 0xFF), ucast (drop_bit 8 m AND 0xFF),
      of_nat thr, temp]"
proof -
  have len: "unat Data_Length = 7"
    by (simp add: Data_Length_def)
  have rep: "replicate 7 (0 :: uint8_t) = [0, 0, 0, 0, 0, 0, 0]"
    by (simp add: numeral_eq_Suc)
  have idx: "(1::nat) = Suc 0" "(2::nat) = Suc (Suc 0)" "(3::nat) = Suc (Suc (Suc 0))"
    "(4::nat) = Suc (Suc (Suc (Suc 0)))" "(5::nat) = Suc (Suc (Suc (Suc (Suc 0))))"
    "(6::nat) = Suc (Suc (Suc (Suc (Suc (Suc 0)))))"
    by simp_all
  show ?thesis
    unfolding build_Data_def Let_def len rep
    by (simp only: idx list_update_code if_distrib [of "\<lambda>xs. list_update xs _ _"] cong: if_cong)
       simp
qed

lemma FF_mask: "(0xFF :: uint) = mask 8"
  by (simp add: mask_eq_exp_minus_1)

lemma lo_byte: "unat (ucast ((x::uint) AND 0xFF) :: uint8_t) = unat x mod 256"
proof -
  have "ucast (x AND mask 8) = (ucast x :: uint8_t)"
    by (rule bit_word_eqI) (auto simp: bit_simps)
  then show ?thesis
    by (simp add: FF_mask unsigned_ucast_eq take_bit_eq_mod)
qed

lemma unat_drop8: "unat (drop_bit 8 (x::uint)) = unat x div 256"
  by (simp add: drop_bit_eq_div unat_div)

lemma hi_byte: "unat (ucast (drop_bit 8 (x::uint) AND 0xFF) :: uint8_t) = unat x div 256"
proof -
  have "unat x < 65536"
    using unsigned_less [of x, where ?'a = nat] by simp
  then have "unat x div 256 < 256"
    by (simp add: div_less_iff_less_mult)
  then show ?thesis
    by (simp only: lo_byte unat_drop8 mod_less)
qed

lemma thr_byte: "unat (of_nat thr :: uint8_t) = thr mod 256"
  by (simp add: unat_of_nat)

lemma emitted_append: "emitted s (s'\<lparr>trace := trace s @ es\<rparr>) = es"
  by (simp add: emitted_def)

lemma sent_append: "sent (xs @ ys) = sent xs @ sent ys"
  by (induction xs rule: sent.induct) simp_all

lemma loop_thr_eq:
  "loop_thr thr w s =
     (if checkAction w then
        s\<lparr>pins := (pins s)(irled := False, irdiode := False),
          reads := Suc (Suc (Suc (reads s))),
          trace := trace s @
            [DigitalWrite irled True, DigitalWrite irdiode True, Delay 25,
             Delay 25, AnalogRead irsens (adc s (reads s)),
             Delay 25, AnalogRead irsens (adc s (Suc (reads s))),
             Delay 25, AnalogRead irsens (adc s (Suc (Suc (reads s)))),
             DigitalWrite irled False, DigitalWrite irdiode False,
             Send_Data (build_Data thr (fst (checkLetter s)) (getVoltage w) (RFM_Temp w))
               Data_Length (Frame_Counter_Tx s),
             SetSleeptime atsleep, GotoSleep],
          Frame_Counter_Tx := Frame_Counter_Tx s + 1\<rparr>
      else s\<lparr>trace := trace s @ [SetSleeptime atsleep, GotoSleep]\<rparr>)"
  by (simp add: loop_thr_def checkLetter_eq lora_Send_Data_def setSleeptime_def gotoSleep_def
      log_def Let_def)

lemma Frame_Counter_loop:
  "Frame_Counter_Tx (loop w s) = (if checkAction w then Frame_Counter_Tx s + 1 else Frame_Counter_Tx s)"
  by (simp add: loop_def loop_thr_eq)

lemma Frame_Counter_run:
  "Frame_Counter_Tx (run ws s) = Frame_Counter_Tx s + of_nat (length (filter checkAction ws))"
  by (induction ws arbitrary: s) (simp_all add: Frame_Counter_loop)

lemma sent_loop:
  "sent (trace (loop w s)) =
     sent (trace s) @
     (if checkAction w
      then [(build_Data THRESHOLD (fst (checkLetter s)) (getVoltage w) (RFM_Temp w),
             Data_Length, Frame_Counter_Tx s)]
      else [])"
  by (simp add: loop_def loop_thr_eq sent_append)

lemma sent_counters_run:
  "map (\<lambda>f. snd (snd f)) (sent (trace (run ws s))) =
     map (\<lambda>f. snd (snd f)) (sent (trace s)) @
     map (\<lambda>k. Frame_Counter_Tx s + of_nat k) [0..<length (filter checkAction ws)]"
proof (induction ws arbitrary: s)
  case Nil
  show ?case by simp
next
  case (Cons w ws)
  show ?case
  proof (cases "checkAction w")
    case True
    have "map (\<lambda>k. Frame_Counter_Tx s + of_nat k) [0..<Suc (length (filter checkAction ws))] =
          Frame_Counter_Tx s # map (\<lambda>k. Frame_Counter_Tx s + 1 + of_nat k) [0..<length (filter checkAction ws)]"
      by (simp add: upt_conv_Cons map_Suc_upt [symmetric] add.assoc del: upt_Suc)
    with True show ?thesis
      by (simp add: Cons.IH sent_loop Frame_Counter_loop del: upt_Suc)
  next
    case False
    then show ?thesis
      by (simp add: Cons.IH sent_loop Frame_Counter_loop)
  qed
qed

lemma setup_node_eq:
  "setup_node s =
     s\<lparr>pins := (pins s)(statusled := False),
       trace := trace s @ [SetSleeptime atsleep, Rfm_init, SetKeys, PinMode irled,
                           PinMode statusled, PinMode irdiode, DigitalWrite statusled True,
                           Delay 10, DigitalWrite statusled False]\<rparr>"
  by (simp add: setup_node_def setSleeptime_def pinMode_def digitalWrite_def delay_def log_def Let_def)

lemma setup_calibrate_eq:
  "setup_calibrate s =
     s\<lparr>pins := (pins s)(statusled := False),
       trace := trace s @ [PinMode irled, PinMode irdiode, PinMode statusled,
                           DigitalWrite statusled True, Delay 500,
                           DigitalWrite statusled False, Delay 500]\<rparr>"
  by (simp add: setup_calibrate_def pinMode_def digitalWrite_def delay_def log_def Let_def)

lemma build_Data_flag: "build_Data thr m vol temp ! 0 = (if classify m thr then 0xFF else 0x00)"
  by (simp add: build_Data_eq)

lemma build_Data_meas_lo: "unat (build_Data thr m vol temp ! 3) = unat m mod 256"
proof -
  have "build_Data thr m vol temp ! 3 = ucast (m AND 0xFF)"
    by (simp add: build_Data_eq)
  then show ?thesis
    by (simp only: lo_byte)
qed

lemma build_Data_meas_hi: "unat (build_Data thr m vol temp ! 4) = unat m div 256"
proof -
  have "build_Data thr m vol temp ! 4 = ucast (drop_bit 8 m AND 0xFF)"
    by (simp add: build_Data_eq)
  then show ?thesis
    by (simp only: hi_byte)
qed

lemma flag_consistent_build_Data: "flag_consistent thr (build_Data thr m vol temp)"
  by (simp add: flag_consistent_def build_Data_flag build_Data_meas_lo build_Data_meas_hi
      classify_def)

lemma consistent_run:
  "list_all (\<lambda>f. flag_consistent THRESHOLD (fst f)) (sent (trace s)) \<Longrightarrow>
   list_all (\<lambda>f. flag_consistent THRESHOLD (fst f)) (sent (trace (run ws s)))"
  by (induction ws arbitrary: s) (simp_all add: sent_loop flag_consistent_build_Data)

lemma unat_sum3:
  "unat (a::uint) + unat b + unat c < 65536 \<Longrightarrow> unat (a + b + c) = unat a + unat b + unat c"
  by (simp add: unat_word_ariths)

lemma unat_mean3:
  "unat (a::uint) + unat b + unat c < 65536 \<Longrightarrow>
   unat ((a + b + c) div 3) = (unat a + unat b + unat c) div 3"
  by (simp add: unat_div unat_sum3)

lemma pins_loop:
  "pins (loop w s) =
     (if checkAction w then (pins s)(irled := False, irdiode := False) else pins s)"
  by (simp add: loop_def loop_thr_eq)

lemma pins_idle:
  "p irled = False \<Longrightarrow> p irdiode = False \<Longrightarrow> p(irled := False, irdiode := False) = p"
  by (auto simp add: fun_eq_iff)

lemma pins_run:
  "pins s irled = False \<Longrightarrow> pins s irdiode = False \<Longrightarrow> pins (run ws s) = pins s"
  by (induction ws arbitrary: s) (simp_all add: pins_loop pins_idle)

section \<open>The uplink payload\<close>

text \<open>
  Claim C1. The payload handed to the radio stack in a transmit cycle is exactly the
  seven bytes: the event flag as \<open>0xFF\<close> or \<open>0x00\<close>, the low and the high byte of the
  battery voltage, the low and the high byte of the measurement, the threshold byte and
  the temperature byte. As numbers, bytes 1 to 4 are \<open>vol mod 256\<close>, \<open>vol div 256\<close>,
  \<open>m mod 256\<close> and \<open>m div 256\<close>. A cycle in which the action is due sends this payload
  and nothing else. For a measurement of 45 above the threshold 30, a voltage of 300 and
  a temperature of 20 the payload is \<open>[0xFF, 0x2C, 0x01, 0x2D, 0x00, 30, 20]\<close>.
\<close>

theorem C1_uplink_payload:
  "build_Data thr m vol temp =
     [if classify m thr then 0xFF else 0x00,
      ucast (vol AND 0xFF), ucast (drop_bit 8 vol AND 0xFF),
      ucast (m AND 0xFF), ucast (drop_bit 8 m AND 0xFF),
      of_nat thr, temp]
   \<and> map unat (build_Data thr m vol temp) =
     [if classify m thr then 255 else 0,
      unat vol mod 256, unat vol div 256, unat m mod 256, unat m div 256,
      thr mod 256, unat temp]
   \<and> sent (emitted s (loop_thr thr (w\<lparr>checkAction := True\<rparr>) s)) =
     [(build_Data thr (fst (checkLetter s)) (getVoltage w) (RFM_Temp w), 0x07,
       Frame_Counter_Tx s)]
   \<and> build_Data 30 45 300 20 = [0xFF, 0x2C, 0x01, 0x2D, 0x00, 30, 20]"
proof -
  have "map unat (build_Data thr m vol temp) =
     [if classify m thr then 255 else 0,
      unat vol mod 256, unat vol div 256, unat m mod 256, unat m div 256,
      thr mod 256, unat temp]"
    by (simp only: build_Data_eq list.map hi_byte thr_byte)
       (simp only: lo_byte, simp)
  moreover have "sent (emitted s (loop_thr thr (w\<lparr>checkAction := True\<rparr>) s)) =
     [(build_Data thr (fst (checkLetter s)) (getVoltage w) (RFM_Temp w), 0x07,
       Frame_Counter_Tx s)]"
    by (simp add: loop_thr_eq emitted_def Data_Length_def)
  moreover have "build_Data 30 45 300 20 = [0xFF, 0x2C, 0x01, 0x2D, 0x00, 30, 20]"
    by (simp add: build_Data_eq classify_def)
  ultimately show ?thesis
    by (simp add: build_Data_eq)
qed

text \<open>
  Claim C6. Byte 5 of the payload is the threshold reduced modulo 256, for every
  threshold; a threshold of 300 gives 44.
\<close>

theorem C6_threshold_byte:
  "build_Data thr m vol temp ! 5 = of_nat thr
   \<and> unat (build_Data thr m vol temp ! 5) = thr mod 256
   \<and> build_Data 300 m vol temp ! 5 = 44"
  by (simp add: build_Data_eq thr_byte)

section \<open>The threshold test\<close>

text \<open>
  Claim C2. The event test is true exactly when the measurement is strictly above the
  threshold; a measurement equal to the threshold is no event (30 against 30 is false,
  31 against 30 is true). The calibration sketch reports a letter exactly when the mean
  of its three readings is strictly above 15, and the node sets byte 0 of its payload by
  the same test.
\<close>

theorem C2_strict_threshold:
  "classify m t = (t < unat m)
   \<and> classify m (unat m) = False
   \<and> classify 30 30 = False
   \<and> classify 31 30 = True
   \<and> fst (checkLetter_calibrate s) =
       (15 < unat ((adc s (reads s) + adc s (Suc (reads s)) + adc s (Suc (Suc (reads s)))) div 3))
   \<and> build_Data t m vol temp ! 0 = (if t < unat m then 0xFF else 0x00)"
  by (simp add: classify_def checkLetter_calibrate_def measure_calibrate_eq
      THRESHOLD_calibrate_def build_Data_eq)

text \<open>
  Claim C9. Every payload of the node agrees with itself: byte 0 is \<open>0xFF\<close> exactly when
  the little-endian 16-bit value of bytes 3 and 4 is strictly above the threshold, since
  both come from the one measurement of the cycle. This holds for the payload built from
  any inputs, and for every frame sent in any run of the node from power-up.
\<close>

theorem C9_flag_matches_measurement:
  "(build_Data thr m vol temp ! 0 = 0xFF) =
     (thr < unat (build_Data thr m vol temp ! 3) + 256 * unat (build_Data thr m vol temp ! 4))
   \<and> list_all (\<lambda>f. flag_consistent 30 (fst f)) (sent (trace (run ws (setup_node (boot a)))))"
proof -
  have "list_all (\<lambda>f. flag_consistent THRESHOLD (fst f)) (sent (trace (setup_node (boot a))))"
    by (simp add: setup_node_eq boot_def)
  from consistent_run [OF this] show ?thesis
    using flag_consistent_build_Data [of thr m vol temp]
    by (simp add: flag_consistent_def THRESHOLD_def)
qed

theorem C9_flag_matches_measurement_witness:
  "sent (trace (run [\<lparr>checkAction = True, getVoltage = 300, RFM_Temp = 20\<rparr>]
                    (setup_node (boot (adc_list [45, 45, 45]))))) =
     [([0xFF, 0x2C, 0x01, 0x2D, 0x00, 30, 20], 7, 0)]
   \<and> flag_consistent 30 [0xFF, 0x2C, 0x01, 0x2D, 0x00, 30, 20]"
proof -
  have "sent (trace (run [\<lparr>checkAction = True, getVoltage = 300, RFM_Temp = 20\<rparr>]
                    (setup_node (boot (adc_list [45, 45, 45]))))) =
     [([0xFF, 0x2C, 0x01, 0x2D, 0x00, 30, 20], 7, 0)]"
    by (simp add: sent_loop setup_node_eq boot_def adc_list_def checkLetter_eq build_Data_eq
        classify_def THRESHOLD_def Data_Length_def)
  with C9_flag_matches_measurement
    [of 30 45 300 20 "[\<lparr>checkAction = True, getVoltage = 300, RFM_Temp = 20\<rparr>]"
      "adc_list [45, 45, 45]"]
  show ?thesis
    by simp
qed

section \<open>The sampler\<close>

text \<open>
  Claim C3. In both sketches the sampler returns \<open>(a + b + c) div 3\<close> for the three
  readings \<open>a\<close>, \<open>b\<close>, \<open>c\<close> it takes, the division being the truncating one of unsigned
  16-bit arithmetic; whenever the three readings add up to less than 65536 (as all
  readings of the 10-bit converter do) this is the truncated mean of the three numbers.
  Readings 10, 11, 12 give 11 and readings 10, 10, 11 give 10.
\<close>

theorem C3_truncated_mean:
  "fst (checkLetter s) =
     (adc s (reads s) + adc s (reads s + 1) + adc s (reads s + 2)) div 3
   \<and> fst (measure_calibrate s) =
     (adc s (reads s) + adc s (reads s + 1) + adc s (reads s + 2)) div 3
   \<and> analog_reads (emitted s (snd (checkLetter s))) =
     [adc s (reads s), adc s (reads s + 1), adc s (reads s + 2)]
   \<and> analog_reads (emitted s (snd (measure_calibrate s))) =
     [adc s (reads s), adc s (reads s + 1), adc s (reads s + 2)]
   \<and> (unat (adc s (reads s)) + unat (adc s (reads s + 1)) + unat (adc s (reads s + 2)) < 65536
      \<longrightarrow> unat (fst (checkLetter s)) =
            (unat (adc s (reads s)) + unat (adc s (reads s + 1)) + unat (adc s (reads s + 2))) div 3
        \<and> unat (fst (measure_calibrate s)) =
            (unat (adc s (reads s)) + unat (adc s (reads s + 1)) + unat (adc s (reads s + 2))) div 3)"
  by (simp add: checkLetter_eq measure_calibrate_eq emitted_def unat_mean3 numeral_2_eq_2)


theorem C3_truncated_mean_witness:
  "unat (fst (checkLetter (boot (adc_list [10, 11, 12])))) = 11
   \<and> unat (fst (checkLetter (boot (adc_list [10, 10, 11])))) = 10
   \<and> unat (fst (measure_calibrate (boot_calibrate (adc_list [10, 11, 12])))) = 11
   \<and> unat (fst (measure_calibrate (boot_calibrate (adc_list [10, 10, 11])))) = 10"
  using C3_truncated_mean [of "boot (adc_list [10, 11, 12])"]
    C3_truncated_mean [of "boot (adc_list [10, 10, 11])"]
    C3_truncated_mean [of "boot_calibrate (adc_list [10, 11, 12])"]
    C3_truncated_mean [of "boot_calibrate (adc_list [10, 10, 11])"]
  by (simp add: boot_def boot_calibrate_def adc_list_def)

text \<open>
  Claim C10. If each of the three readings is at most 1023, the running sum in the
  16-bit accumulator equals the sum of the numbers read so far after every addition, the
  final sum is at most 3069, and the value returned is the exact truncated mean of the
  three readings.
\<close>

theorem C10_sum_never_wraps:
  assumes "adc s (reads s) \<le> 1023" "adc s (reads s + 1) \<le> 1023" "adc s (reads s + 2) \<le> 1023"
  shows "unat (0 + adc s (reads s)) = unat (adc s (reads s))
   \<and> unat (0 + adc s (reads s) + adc s (reads s + 1)) =
       unat (adc s (reads s)) + unat (adc s (reads s + 1))
   \<and> fst (sample_loop ms 0 (0, s)) = 0 + adc s (reads s) + adc s (reads s + 1) + adc s (reads s + 2)
   \<and> unat (fst (sample_loop ms 0 (0, s))) =
       unat (adc s (reads s)) + unat (adc s (reads s + 1)) + unat (adc s (reads s + 2))
   \<and> unat (fst (sample_loop ms 0 (0, s))) \<le> 3069
   \<and> unat (fst (checkLetter s)) =
       (unat (adc s (reads s)) + unat (adc s (reads s + 1)) + unat (adc s (reads s + 2))) div 3
   \<and> unat (fst (measure_calibrate s)) =
       (unat (adc s (reads s)) + unat (adc s (reads s + 1)) + unat (adc s (reads s + 2))) div 3
   \<and> unat (fst (checkLetter s)) \<le> 1023"
proof -
  have a: "unat (adc s (reads s)) \<le> 1023"
    using assms(1) by (simp add: word_le_nat_alt)
  have b: "unat (adc s (reads s + 1)) \<le> 1023"
    using assms(2) by (simp add: word_le_nat_alt)
  have c: "unat (adc s (reads s + 2)) \<le> 1023"
    using assms(3) by (simp add: word_le_nat_alt)
  have ab: "unat (adc s (reads s) + adc s (reads s + 1)) =
      unat (adc s (reads s)) + unat (adc s (reads s + 1))"
    using a b by (simp add: unat_word_ariths)
  have small: "unat (adc s (reads s)) + unat (adc s (reads s + 1)) + unat (adc s (reads s + 2)) < 65536"
    using a b c by simp
  have le: "unat (adc s (reads s)) + unat (adc s (reads s + 1)) + unat (adc s (reads s + 2)) \<le> 3069"
    using a b c by simp
  have loop: "fst (sample_loop ms 0 (0, s)) = adc s (reads s) + adc s (reads s + 1) + adc s (reads s + 2)"
    by (simp add: sample_loop_eq numeral_2_eq_2)
  have r: "fst (checkLetter s) = (adc s (reads s) + adc s (reads s + 1) + adc s (reads s + 2)) div 3"
    by (simp add: checkLetter_eq numeral_2_eq_2)
  have r': "fst (measure_calibrate s) = (adc s (reads s) + adc s (reads s + 1) + adc s (reads s + 2)) div 3"
    by (simp add: measure_calibrate_eq numeral_2_eq_2)
  have mean: "(unat (adc s (reads s)) + unat (adc s (reads s + 1)) + unat (adc s (reads s + 2))) div 3 \<le> 1023"
    using le by simp
  show ?thesis
    using ab le mean unat_sum3 [OF small] unat_mean3 [OF small] by (simp add: loop r r')
qed


theorem C10_sum_never_wraps_witness:
  "unat (fst (sample_loop 25 0 (0, boot (adc_list [1023, 1023, 1023])))) = 3069
   \<and> unat (fst (checkLetter (boot (adc_list [1023, 1023, 1023])))) = 1023
   \<and> unat (fst (measure_calibrate (boot (adc_list [1023, 1023, 1023])))) = 1023"
  using C10_sum_never_wraps [of "boot (adc_list [1023, 1023, 1023])" 25]
  by (simp add: boot_def adc_list_def)

text \<open>
  Claim C7, as the specification states it: in the deployed sketch one settle delay of
  25 ms precedes the first reading. The deployed sampler calls \<^verbatim>\<open>delay(25)\<close> once before
  its loop and once more at the head of every iteration, so 50 ms pass before the first
  reading: the stated schedule is not the one the code runs.
\<close>

theorem C7_settle_delay_counterexample:
  "read_waits (emitted (boot (adc_list [10, 11, 12]))
     (snd (checkLetter (boot (adc_list [10, 11, 12]))))) = [50, 25, 25]
   \<and> read_waits (emitted (boot (adc_list [10, 11, 12]))
     (snd (checkLetter (boot (adc_list [10, 11, 12]))))) \<noteq> [25, 25, 25]
   \<and> emitted (boot (adc_list [10, 11, 12])) (snd (checkLetter (boot (adc_list [10, 11, 12])))) \<noteq>
     [DigitalWrite 3 True, DigitalWrite 7 True,
      Delay 25, AnalogRead (A 2) 10, Delay 25, AnalogRead (A 2) 11, Delay 25, AnalogRead (A 2) 12,
      DigitalWrite 3 False, DigitalWrite 7 False]"
  by (simp add: checkLetter_eq emitted_def read_waits_def boot_def adc_list_def)


text \<open>
  Claim C7, amended. Both samplers drive the two pins high and take exactly 3 readings.
  The calibration sketch waits 15 ms before each reading. The deployed sketch waits
  25 ms after driving the pins high and a further 25 ms before each reading: 50 ms
  before the first reading and 25 ms between consecutive readings.
\<close>

theorem C7_sampling_schedule:
  "emitted s (snd (measure_calibrate s)) =
     [DigitalWrite irled True, DigitalWrite irdiode True,
      Delay 15, AnalogRead irsens (adc s (reads s)),
      Delay 15, AnalogRead irsens (adc s (reads s + 1)),
      Delay 15, AnalogRead irsens (adc s (reads s + 2)),
      DigitalWrite irled False, DigitalWrite irdiode False]
   \<and> read_waits (emitted s (snd (measure_calibrate s))) = [15, 15, 15]
   \<and> emitted s (snd (checkLetter s)) =
     [DigitalWrite irled True, DigitalWrite irdiode True,
      Delay 25,
      Delay 25, AnalogRead irsens (adc s (reads s)),
      Delay 25, AnalogRead irsens (adc s (reads s + 1)),
      Delay 25, AnalogRead irsens (adc s (reads s + 2)),
      DigitalWrite irled False, DigitalWrite irdiode False]
   \<and> read_waits (emitted s (snd (checkLetter s))) = [50, 25, 25]"
  by (simp add: checkLetter_eq measure_calibrate_eq emitted_def read_waits_def numeral_2_eq_2)

text \<open>
  Claim C8. In both sketches every call of the sampler leaves the emitter pin and the
  detector supply pin low and every other pin as it was; each of its 3 readings is taken
  while both pins are high; and when both pins were low before the call, the pin levels
  after the call are those before it. They are low after \<^verbatim>\<open>setup\<close>, and every run of
  the node leaves the pin levels as \<^verbatim>\<open>setup\<close> left them.
\<close>

theorem C8_pins_low_after_sampling:
  "pins (snd (checkLetter s)) = (pins s)(irled := False, irdiode := False)
   \<and> pins (snd (checkLetter_calibrate s)) = (pins s)(irled := False, irdiode := False)
   \<and> pins (snd (checkLetter s)) irled = False \<and> pins (snd (checkLetter s)) irdiode = False
   \<and> pins (snd (checkLetter_calibrate s)) irled = False
   \<and> pins (snd (checkLetter_calibrate s)) irdiode = False
   \<and> lit_at_reads (pins s) (emitted s (snd (checkLetter s)))
   \<and> lit_at_reads (pins s) (emitted s (snd (checkLetter_calibrate s)))
   \<and> length (analog_reads (emitted s (snd (checkLetter s)))) = 3
   \<and> length (analog_reads (emitted s (snd (checkLetter_calibrate s)))) = 3
   \<and> pins (run ws (setup_node (boot a))) = pins (setup_node (boot a))
   \<and> (pins s irled = False \<and> pins s irdiode = False \<longrightarrow>
        pins (snd (checkLetter s)) = pins s \<and> pins (snd (checkLetter_calibrate s)) = pins s)"
proof -
  have lit: "lit_at_reads (pins s) (emitted s (snd (checkLetter s)))"
    by (simp add: checkLetter_eq emitted_def irled_def irdiode_def)
  have lit': "lit_at_reads (pins s) (emitted s (snd (checkLetter_calibrate s)))"
    by (simp add: checkLetter_calibrate_def measure_calibrate_eq emitted_def irled_def irdiode_def)
  have idle: "pins (run ws (setup_node (boot a))) = pins (setup_node (boot a))"
    by (rule pins_run) (simp_all add: setup_node_eq boot_def irled_def irdiode_def statusled_def)
  show ?thesis
    using lit lit' idle
    by (simp add: checkLetter_eq checkLetter_calibrate_def measure_calibrate_eq emitted_def
        pins_idle)
qed

theorem C8_pins_low_after_sampling_witness:
  "pins (setup_node (boot (adc_list [10, 11, 12]))) irled = False
   \<and> pins (setup_node (boot (adc_list [10, 11, 12]))) irdiode = False
   \<and> pins (snd (checkLetter (setup_node (boot (adc_list [10, 11, 12]))))) =
     pins (setup_node (boot (adc_list [10, 11, 12])))
   \<and> pins (setup_calibrate (boot_calibrate (adc_list [10, 11, 12]))) irled = False
   \<and> pins (setup_calibrate (boot_calibrate (adc_list [10, 11, 12]))) irdiode = False
   \<and> pins (snd (checkLetter_calibrate (setup_calibrate (boot_calibrate (adc_list [10, 11, 12]))))) =
     pins (setup_calibrate (boot_calibrate (adc_list [10, 11, 12])))"
proof -
  have node: "pins (setup_node (boot (adc_list [10, 11, 12]))) irled = False
      \<and> pins (setup_node (boot (adc_list [10, 11, 12]))) irdiode = False"
    by (simp add: setup_node_eq boot_def irled_def irdiode_def statusled_def)
  have cal: "pins (setup_calibrate (boot_calibrate (adc_list [10, 11, 12]))) irled = False
      \<and> pins (setup_calibrate (boot_calibrate (adc_list [10, 11, 12]))) irdiode = False"
    by (simp add: setup_calibrate_eq boot_calibrate_def irled_def irdiode_def statusled_def)
  from node cal
    C8_pins_low_after_sampling [of "setup_node (boot (adc_list [10, 11, 12]))"]
    C8_pins_low_after_sampling [of "setup_calibrate (boot_calibrate (adc_list [10, 11, 12]))"]
  show ?thesis
    by blast
qed

section \<open>The wake cycle and the frame counter\<close>

text \<open>
  Claim C4. The frame counter is a 16-bit unsigned value that is 0 at power-up.
  \<^verbatim>\<open>setup\<close> and the sampler leave it alone; a pass of \<^verbatim>\<open>loop\<close> adds exactly 1 to it when
  it transmits and leaves it alone otherwise. After any run from power-up it is the
  number of transmit cycles modulo 65536, the frames sent carry 0, 1, 2, ... in this
  order, and from \<open>0xFFFF\<close> the next transmit cycle takes it to 0.
\<close>

theorem C4_frame_counter:
  "Frame_Counter_Tx (boot a) = 0
   \<and> Frame_Counter_Tx (setup_node s) = Frame_Counter_Tx s
   \<and> Frame_Counter_Tx (snd (checkLetter s)) = Frame_Counter_Tx s
   \<and> Frame_Counter_Tx (loop w s) =
       (if checkAction w then Frame_Counter_Tx s + 1 else Frame_Counter_Tx s)
   \<and> Frame_Counter_Tx (run ws s) = Frame_Counter_Tx s + of_nat (length (filter checkAction ws))
   \<and> unat (Frame_Counter_Tx (run ws (setup_node (boot a)))) =
       length (filter checkAction ws) mod 65536
   \<and> map (\<lambda>f. snd (snd f)) (sent (trace (run ws (setup_node (boot a))))) =
       map of_nat [0..<length (filter checkAction ws)]
   \<and> Frame_Counter_Tx (loop (w\<lparr>checkAction := True\<rparr>) (s\<lparr>Frame_Counter_Tx := 0xFFFF\<rparr>)) = 0"
proof -
  have "unat (Frame_Counter_Tx (run ws (setup_node (boot a)))) =
       length (filter checkAction ws) mod 65536"
    by (simp add: Frame_Counter_run setup_node_eq boot_def unat_of_nat)
  moreover have "map (\<lambda>f. snd (snd f)) (sent (trace (run ws (setup_node (boot a))))) =
       map of_nat [0..<length (filter checkAction ws)]"
    by (simp add: sent_counters_run setup_node_eq boot_def)
  ultimately show ?thesis
    by (simp add: Frame_Counter_run Frame_Counter_loop setup_node_eq boot_def checkLetter_eq)
qed

text \<open>
  Claim C5. A wake cycle in which the action is not due only re-arms the sleep timer and
  goes back to sleep: nothing is read from the converter, nothing is sent, and the frame
  counter keeps its value. When the action is not due on three wake cycles in a row and
  due on the fourth, nothing is sent and the counter is 0 after the third; after the
  fourth exactly one frame has been sent, with frame counter 0, from the one set of three
  readings, and the counter is 1.
\<close>

theorem C5_idle_wake:
  "loop (w\<lparr>checkAction := False\<rparr>) s = s\<lparr>trace := trace s @ [SetSleeptime 1800, GotoSleep]\<rparr>
   \<and> sent (emitted s (loop (w\<lparr>checkAction := False\<rparr>) s)) = []
   \<and> analog_reads (emitted s (loop (w\<lparr>checkAction := False\<rparr>) s)) = []
   \<and> Frame_Counter_Tx (loop (w\<lparr>checkAction := False\<rparr>) s) = Frame_Counter_Tx s
   \<and> sent (trace (run [w1\<lparr>checkAction := False\<rparr>, w2\<lparr>checkAction := False\<rparr>,
                        w3\<lparr>checkAction := False\<rparr>] (setup_node (boot a)))) = []
   \<and> analog_reads (trace (run [w1\<lparr>checkAction := False\<rparr>, w2\<lparr>checkAction := False\<rparr>,
                        w3\<lparr>checkAction := False\<rparr>] (setup_node (boot a)))) = []
   \<and> Frame_Counter_Tx (run [w1\<lparr>checkAction := False\<rparr>, w2\<lparr>checkAction := False\<rparr>,
                        w3\<lparr>checkAction := False\<rparr>] (setup_node (boot a))) = 0
   \<and> sent (trace (run [w1\<lparr>checkAction := False\<rparr>, w2\<lparr>checkAction := False\<rparr>,
                        w3\<lparr>checkAction := False\<rparr>, w4\<lparr>checkAction := True\<rparr>]
                       (setup_node (boot a)))) =
       [(build_Data 30 ((a 0 + a 1 + a 2) div 3) (getVoltage w4) (RFM_Temp w4), 7, 0)]
   \<and> analog_reads (trace (run [w1\<lparr>checkAction := False\<rparr>, w2\<lparr>checkAction := False\<rparr>,
                        w3\<lparr>checkAction := False\<rparr>, w4\<lparr>checkAction := True\<rparr>]
                       (setup_node (boot a)))) = [a 0, a 1, a 2]
   \<and> Frame_Counter_Tx (run [w1\<lparr>checkAction := False\<rparr>, w2\<lparr>checkAction := False\<rparr>,
                        w3\<lparr>checkAction := False\<rparr>, w4\<lparr>checkAction := True\<rparr>]
                       (setup_node (boot a))) = 1"
  by (simp add: loop_def loop_thr_eq emitted_def setup_node_eq boot_def atsleep_def
      THRESHOLD_def Data_Length_def checkLetter_eq numeral_2_eq_2)

end
